theory Spec2Isabelle
  imports Complex_Main
begin

section \<open>EnerShift: the scoring and projection logic of the dashboard\<close>

text \<open>
  The two React components \<^verbatim>\<open>EnerShiftDashboard\<close> and \<^verbatim>\<open>EnhancedFeatures\<close> keep
  their data in component state and recompute derived values in effects. The model
  passes that state explicitly: every updater takes the state it reads and returns the
  state it leaves behind. \<^verbatim>\<open>EnhancedFeatures.tsx\<close> also carries an older copy of the
  dashboard component; the model of the dashboard follows \<^verbatim>\<open>EnerShiftDashboard.tsx\<close>.

  Numbers. A TypeScript \<^verbatim>\<open>number\<close> is modelled as a real: the finite values, with
  exact arithmetic. The rounding of binary64, \<^verbatim>\<open>NaN\<close> and the infinities are not
  values of the model. The code leaves the finite numbers in two ways. A division by zero
  is written out (\<open>js_div\<close>). An overflow is not a value either: the model computes the
  exact result, and \<open>overflows\<close> says whether binary64 stores that result as an infinity.
\<close>

type_synonym number = real

subsection \<open>Data model (the interfaces of EnerShiftDashboard.tsx)\<close>

record Sample =
  time :: string
  sample_value :: number

text \<open>The common shape of \<^verbatim>\<open>EnergyData.solar\<close> and \<^verbatim>\<open>EnergyData.wind\<close>.\<close>

record Source =
  current :: number
  average :: number
  peak :: number
  data :: "Sample list"

record EnergyData =
  solar :: Source
  wind :: Source

record LocationData =
  latitude :: number
  longitude :: number
  city :: string
  region :: string
  country :: string

record BatteryState =
  capacity :: number
  currentCharge :: number
  percentage :: number
  runtime :: number

record Appliance =
  name :: string
  power_kW :: number
  hours :: number

record EnergyConsumption =
  dailyDemand :: number
  peakHours :: string
  appliances :: "Appliance list"

record CostAnalysis =
  gridCost :: number
  renewableSavings :: number
  paybackPeriod :: number
  annualSavings :: number

text \<open>
  Field \<^verbatim>\<open>annualSavings\<close> of \<^verbatim>\<open>CarbonFootprint\<close> is named \<open>annualCarbonSavings\<close>
  here, after the local constant it is assigned from, to keep it apart from the field of
  \<open>CostAnalysis\<close>.
\<close>

record CarbonFootprint =
  currentEmissions :: number
  renewableReduction :: number
  annualCarbonSavings :: number
  treesEquivalent :: number

datatype rec_type = Solar | Wind | Battery | Grid | Economic | Environmental

datatype priority = Critical | High | Medium | Low

record EnhancedRecommendation =
  type :: rec_type
  priority :: priority
  message :: string
  action :: string
  timeframe :: string
  impact :: number
  confidence :: number

datatype status = Optimal | Moderate | NotRecommended

datatype icon = CheckCircle | AlertTriangle | XCircle

record FeasibilityResult =
  status :: status
  score :: number
  reason :: string
  icon :: icon

text \<open>
  The part of the dashboard's component state that the modelled functions read or write.
  \<^verbatim>\<open>null\<close> is \<open>None\<close>.
\<close>

record Dashboard =
  location :: "LocationData option"
  energyData :: "EnergyData option"
  battery :: BatteryState
  recommendations :: "EnhancedRecommendation list"
  feasibility :: "FeasibilityResult option"
  energyConsumption :: EnergyConsumption
  costAnalysis :: CostAnalysis

datatype error = TypeError

subsection \<open>JavaScript operators and built-ins\<close>

text \<open>
  \<^verbatim>\<open>x / y\<close>. JavaScript does not raise on a zero divisor: the quotient is \<^verbatim>\<open>NaN\<close>
  or an infinity. These are not numbers of the model, so the quotient is \<open>None\<close> there.
  \<open>Some q\<close> is the exact quotient; what the code stores is its binary64 rounding, which
  is an infinity when \<open>overflows q\<close>.
\<close>

definition js_div :: "number \<Rightarrow> number \<Rightarrow> number option" where
  "js_div x y = (if y = 0 then None else Some (x / y))"

text \<open>\<^verbatim>\<open>x || y\<close> on numbers: \<open>x\<close> when it is truthy, that is, when it is not zero.\<close>

definition js_or :: "number \<Rightarrow> number \<Rightarrow> number" where
  "js_or x y = (if x = 0 then y else x)"



text \<open>\<^verbatim>\<open>Array.prototype.join\<close> on an array of strings.\<close>

fun join :: "string \<Rightarrow> string list \<Rightarrow> string" where
  "join sep [] = []"
| "join sep [x] = x"
| "join sep (x # y # ys) = x @ sep @ join sep (y # ys)"

text \<open>The decimal digits of a natural number, without leading zeros (\<open>0\<close> is \<open>''0''\<close>).\<close>

function decimal :: "nat \<Rightarrow> string" where
  "decimal n =
     (if n < 10 then [''0123456789'' ! n]
      else decimal (n div 10) @ [''0123456789'' ! (n mod 10)])"
  by pat_completeness auto
termination
  by (relation "measure (\<lambda>n. n)") auto

declare decimal.simps [simp del]

text \<open>
  \<^verbatim>\<open>Number.prototype.toFixed(f)\<close>, as ECMA-262 defines it below \<open>10^21\<close>: the sign, then
  the integer \<open>n\<close> nearest to \<open>|x| * 10^f\<close> (the larger one of two), written with \<open>f\<close>
  digits after the point. From \<open>10^21\<close> on JavaScript switches to exponent notation;
  the model keeps the positional one. The argument here is the exact value; the code
  formats the binary64 rounding of it, so the last digit can differ where the exact value
  lies on a rounding boundary. The function feeds the two computed message strings only.
\<close>

definition toFixed :: "nat \<Rightarrow> number \<Rightarrow> string" where
  "toFixed f x =
     (let s = (if x < 0 then ''-'' else '''');
          n = nat \<lfloor>\<bar>x\<bar> * 10 ^ f + 1 / 2\<rfloor>;
          m = decimal n
      in if f = 0 then s @ m
         else
           let m' = replicate (f + 1 - length m) (CHR ''0'') @ m;
               k = length m'
           in s @ take (k - f) m' @ ''.'' @ drop (k - f) m')"

text \<open>The rupee sign U+20B9 of the savings message, as its three UTF-8 bytes.\<close>

definition rupee :: string where
  "rupee = [CHR 0xE2, CHR 0x82, CHR 0xB9]"

subsection \<open>Battery: percentage and runtime (the effect at lines 147-157)\<close>

text \<open>
  \<^verbatim>\<open>const percentage = (battery.currentCharge / battery.capacity) * 100\<close>
\<close>

definition newPercentage :: "BatteryState \<Rightarrow> number option" where
  "newPercentage b =
     (case js_div (currentCharge b) (capacity b) of
        None \<Rightarrow> None
      | Some q \<Rightarrow> Some (q * 100))"

text \<open>
  \<^verbatim>\<open>const averageDemand = energyData ? (energyData.solar.average + energyData.wind.average) / 2 : 5\<close>
\<close>

definition averageDemand :: "EnergyData option \<Rightarrow> number" where
  "averageDemand e =
     (case e of
        Some d \<Rightarrow> (average (solar d) + average (wind d)) / 2
      | None \<Rightarrow> 5)"

text \<open>
  \<^verbatim>\<open>const runtime = battery.currentCharge / (averageDemand || 5)\<close>. The divisor is never
  zero, so the result is always \<open>Some\<close> of the exact quotient; that quotient can still
  be beyond the finite binary64 numbers (\<open>overflows\<close>).
\<close>

definition newRuntime :: "BatteryState \<Rightarrow> EnergyData option \<Rightarrow> number option" where
  "newRuntime b e = js_div (currentCharge b) (js_or (averageDemand e) 5)"

text \<open>
  The effect stores both values in the battery and keeps its other fields. \<open>None\<close>: one of
  the two divisions is a division by zero.
\<close>

definition batteryEffect :: "Dashboard \<Rightarrow> Dashboard option" where
  "batteryEffect st =
     (case newPercentage (battery st) of
        None \<Rightarrow> None
      | Some p \<Rightarrow>
          (case newRuntime (battery st) (energyData st) of
             None \<Rightarrow> None
           | Some r \<Rightarrow> Some (st\<lparr>battery := (battery st)\<lparr>percentage := p, runtime := r\<rparr>\<rparr>)))"

subsection \<open>generateRecommendations\<close>

text \<open>
  \<^verbatim>\<open>const currentHour = new Date().getHours()\<close> reads the wall clock; the hour is the
  first argument. \<^verbatim>\<open>isDaytime = currentHour >= 6 && currentHour <= 18\<close>.
\<close>

definition isDaytime :: "nat \<Rightarrow> bool" where
  "isDaytime currentHour = (currentHour \<ge> 6 \<and> currentHour \<le> 18)"

definition solarRec :: "nat \<Rightarrow> EnhancedRecommendation" where
  "solarRec currentHour =
     \<lparr>type = Solar, priority = Critical,
      message = ''Excellent solar conditions detected'',
      action = ''Maximize solar charging immediately'',
      timeframe = (if isDaytime currentHour then ''Next 2-4 hours'' else ''Tomorrow 10AM-2PM''),
      impact = 85, confidence = 92\<rparr>"

definition windRec :: EnhancedRecommendation where
  "windRec =
     \<lparr>type = Wind, priority = High,
      message = ''Strong wind speeds available'',
      action = ''Activate wind turbine charging'',
      timeframe = ''Next 6 hours'',
      impact = 70, confidence = 88\<rparr>"

definition economicRec :: "number \<Rightarrow> EnhancedRecommendation" where
  "economicRec savings =
     \<lparr>type = Economic, priority = Medium,
      message = ''Potential daily savings: '' @ rupee @ toFixed 0 savings,
      action = ''Optimize renewable mix for maximum ROI'',
      timeframe = ''Daily optimization'',
      impact = 60, confidence = 85\<rparr>"

definition environmentalRec :: "number \<Rightarrow> EnhancedRecommendation" where
  "environmentalRec carbonReduction =
     \<lparr>type = Environmental, priority = Medium,
      message = ''Reduce '' @ toFixed 1 carbonReduction @ ''kg CO2 daily'',
      action = ''Switch to 100% renewable energy'',
      timeframe = ''Continuous'',
      impact = 90, confidence = 95\<rparr>"

definition batteryRec :: EnhancedRecommendation where
  "batteryRec =
     \<lparr>type = Battery, priority = Critical,
      message = ''Critical battery level detected'',
      action = ''Switch to grid backup immediately'',
      timeframe = ''Immediate'',
      impact = 100, confidence = 100\<rparr>"

definition gridRec :: EnhancedRecommendation where
  "gridRec =
     \<lparr>type = Grid, priority = High,
      message = ''Low renewable availability'',
      action = ''Use grid power during off-peak hours'',
      timeframe = ''Next 12 hours'',
      impact = 45, confidence = 80\<rparr>"

text \<open>
  The list \<^verbatim>\<open>recs\<close> after the six \<^verbatim>\<open>if\<close> blocks, each of which pushes at most one
  record onto its end.
\<close>

definition recs :: "nat \<Rightarrow> EnergyData \<Rightarrow> BatteryState \<Rightarrow> EnergyConsumption \<Rightarrow> CostAnalysis
    \<Rightarrow> EnhancedRecommendation list" where
  "recs currentHour d b c ca =
     (let r1 = (if current (solar d) > 5 \<and> percentage b < 50 then [solarRec currentHour] else []);
          r2 = (if current (wind d) > 5 \<and> percentage b < 70 then r1 @ [windRec] else r1);
          r3 = (if average (solar d) > 4 \<and> average (wind d) > 3
                then r2 @ [economicRec ((average (solar d) + average (wind d)) * gridCost ca * 0.8)]
                else r2);
          carbonReduction = (dailyDemand c * 0.82) / 1000;
          r4 = (if carbonReduction > 0.5 then r3 @ [environmentalRec carbonReduction] else r3);
          r5 = (if percentage b < 20 then r4 @ [batteryRec] else r4);
          r6 = (if current (solar d) < 3 \<and> current (wind d) < 3 then r5 @ [gridRec] else r5)
      in r6)"

text \<open>
  \<^verbatim>\<open>if (!energyData) return\<close> leaves the state as it is; otherwise
  \<^verbatim>\<open>setRecommendations(recs)\<close> replaces the list.
\<close>

definition generateRecommendations :: "nat \<Rightarrow> Dashboard \<Rightarrow> Dashboard" where
  "generateRecommendations currentHour st =
     (case energyData st of
        None \<Rightarrow> st
      | Some d \<Rightarrow>
          st\<lparr>recommendations :=
               recs currentHour d (battery st) (energyConsumption st) (costAnalysis st)\<rparr>)"

subsection \<open>calculateFeasibility\<close>

text \<open>
  The running pair of \<^verbatim>\<open>score\<close> and \<^verbatim>\<open>reasons\<close>; each commented block of the
  function is one step on it.
\<close>

type_synonym tally = "number \<times> string list"

definition solarScoring :: "EnergyData \<Rightarrow> tally \<Rightarrow> tally" where
  "solarScoring d t =
     (case t of (s, rs) \<Rightarrow>
        if average (solar d) > 6 then (s + 40, rs @ [''excellent solar availability''])
        else if average (solar d) > 4 then (s + 25, rs @ [''good solar potential''])
        else (s + 10, rs @ [''limited solar resources'']))"

definition windScoring :: "EnergyData \<Rightarrow> tally \<Rightarrow> tally" where
  "windScoring d t =
     (case t of (s, rs) \<Rightarrow>
        if average (wind d) > 5 then (s + 30, rs @ [''strong wind resources''])
        else if average (wind d) > 3 then (s + 20, rs @ [''moderate wind potential''])
        else (s + 5, rs @ [''low wind availability'']))"

definition batteryScoring :: "BatteryState \<Rightarrow> tally \<Rightarrow> tally" where
  "batteryScoring b t =
     (case t of (s, rs) \<Rightarrow>
        if runtime b > 12 then (s + 20, rs @ [''sufficient battery capacity''])
        else if runtime b > 6 then (s + 15, rs @ [''adequate battery runtime''])
        else (s + 5, rs @ [''limited battery capacity'']))"

definition reliabilityScoring :: "EnergyData \<Rightarrow> tally \<Rightarrow> tally" where
  "reliabilityScoring d t =
     (case t of (s, rs) \<Rightarrow>
        if peak (solar d) > 7 \<or> peak (wind d) > 6 then (s + 10, rs @ [''reliable energy peaks''])
        else (s, rs))"

definition determineStatus :: "number \<Rightarrow> status \<times> icon" where
  "determineStatus s =
     (if s \<ge> 80 then (Optimal, CheckCircle)
      else if s \<ge> 60 then (Moderate, AlertTriangle)
      else (NotRecommended, XCircle))"

definition tally_of :: "EnergyData \<Rightarrow> BatteryState \<Rightarrow> tally" where
  "tally_of d b = reliabilityScoring d (batteryScoring b (windScoring d (solarScoring d (0, []))))"

definition calculateFeasibility :: "Dashboard \<Rightarrow> Dashboard" where
  "calculateFeasibility st =
     (case energyData st of
        None \<Rightarrow> st
      | Some d \<Rightarrow>
          (case tally_of d (battery st) of (s, rs) \<Rightarrow>
             (case determineStatus s of (stat, ic) \<Rightarrow>
                st\<lparr>feasibility :=
                     Some \<lparr>status = stat, score = s, reason = join '', '' rs, icon = ic\<rparr>\<rparr>)))"

text \<open>
  The effect at lines 160-165: \<^verbatim>\<open>if (energyData && location)\<close> both functions run.
  They read the state of the same render, and the first writes only the
  recommendations, which the second does not read.
\<close>

definition scoringEffect :: "nat \<Rightarrow> Dashboard \<Rightarrow> Dashboard" where
  "scoringEffect currentHour st =
     (if energyData st \<noteq> None \<and> location st \<noteq> None
      then calculateFeasibility (generateRecommendations currentHour st)
      else st)"

subsection \<open>calculateEnhancedMetrics (EnhancedFeatures.tsx)\<close>

text \<open>\<^verbatim>\<open>const systemCost = 80000\<close>\<close>

definition systemCost :: number where
  "systemCost = 80000"

text \<open>
  The function reads the prop \<^verbatim>\<open>energyData\<close> and the component's
  \<^verbatim>\<open>energyConsumption\<close> and \<^verbatim>\<open>costAnalysis\<close>; it updates three fields of the cost
  analysis and replaces the carbon footprint. Reading \<^verbatim>\<open>energyData.solar\<close> of
  \<^verbatim>\<open>null\<close> throws a TypeError.
\<close>

definition calculateEnhancedMetrics ::
    "EnergyData option \<Rightarrow> EnergyConsumption \<Rightarrow> CostAnalysis \<Rightarrow> error + CostAnalysis \<times> CarbonFootprint" where
  "calculateEnhancedMetrics e c ca =
     (case e of
        None \<Rightarrow> Inl TypeError
      | Some d \<Rightarrow>
          (let dailyRenewableGeneration = (average (solar d) + average (wind d)) * 0.8;
               dailyGridUsage = max 0 (dailyDemand c - dailyRenewableGeneration);
               dailySavings = (dailyDemand c - dailyGridUsage) * gridCost ca;
               annual = dailySavings * 365;
               payback = (if annual > 0 then systemCost / annual else 0);
               emissions = dailyDemand c * 0.82;
               reduction = dailyRenewableGeneration * 0.82;
               annualCarbon = reduction * 365;
               trees = annualCarbon / 22
           in Inr (ca\<lparr>renewableSavings := dailySavings, annualSavings := annual,
                       paybackPeriod := payback\<rparr>,
                   \<lparr>currentEmissions = emissions, renewableReduction = reduction,
                    annualCarbonSavings = annualCarbon, treesEquivalent = trees\<rparr>)))"

text \<open>
  The effect at lines 80-85 calls it only when the props \<^verbatim>\<open>energyData\<close> and
  \<^verbatim>\<open>battery\<close> are truthy; otherwise both records stay.
\<close>

definition metricsEffect ::
    "EnergyData option \<Rightarrow> BatteryState option \<Rightarrow> EnergyConsumption \<Rightarrow> CostAnalysis \<Rightarrow> CarbonFootprint
      \<Rightarrow> error + CostAnalysis \<times> CarbonFootprint" where
  "metricsEffect e b c ca cf =
     (if e \<noteq> None \<and> b \<noteq> None then calculateEnhancedMetrics e c ca else Inr (ca, cf))"

subsection \<open>Values the source fixes\<close>

text \<open>The initial component state (\<^verbatim>\<open>useState\<close>) and the fallback energy data.\<close>

definition initialBattery :: BatteryState where
  "initialBattery = \<lparr>capacity = 100, currentCharge = 75, percentage = 75, runtime = 0\<rparr>"

definition initialConsumption :: EnergyConsumption where
  "initialConsumption =
     \<lparr>dailyDemand = 25, peakHours = ''18:00-22:00'',
      appliances =
        [\<lparr>name = ''LED Lights'', power_kW = 0.5, hours = 8\<rparr>,
         \<lparr>name = ''Refrigerator'', power_kW = 1.2, hours = 24\<rparr>,
         \<lparr>name = ''Mobile Charging'', power_kW = 0.1, hours = 4\<rparr>]\<rparr>"

definition initialCost :: CostAnalysis where
  "initialCost = \<lparr>gridCost = 8.5, renewableSavings = 0, paybackPeriod = 0, annualSavings = 0\<rparr>"

definition fallbackEnergyData :: EnergyData where
  "fallbackEnergyData =
     \<lparr>solar = \<lparr>current = 4.2, average = 5.1, peak = 8.3,
        data = [\<lparr>time = ''Day 1'', sample_value = 4.2\<rparr>, \<lparr>time = ''Day 2'', sample_value = 5.8\<rparr>,
                \<lparr>time = ''Day 3'', sample_value = 6.1\<rparr>, \<lparr>time = ''Day 4'', sample_value = 3.9\<rparr>,
                \<lparr>time = ''Day 5'', sample_value = 7.2\<rparr>, \<lparr>time = ''Day 6'', sample_value = 8.1\<rparr>,
                \<lparr>time = ''Day 7'', sample_value = 5.4\<rparr>]\<rparr>,
      wind = \<lparr>current = 3.8, average = 4.2, peak = 7.9,
        data = [\<lparr>time = ''Day 1'', sample_value = 3.8\<rparr>, \<lparr>time = ''Day 2'', sample_value = 4.5\<rparr>,
                \<lparr>time = ''Day 3'', sample_value = 2.9\<rparr>, \<lparr>time = ''Day 4'', sample_value = 5.2\<rparr>,
                \<lparr>time = ''Day 5'', sample_value = 6.8\<rparr>, \<lparr>time = ''Day 6'', sample_value = 4.1\<rparr>,
                \<lparr>time = ''Day 7'', sample_value = 3.3\<rparr>]\<rparr>\<rparr>"

definition initialDashboard :: Dashboard where
  "initialDashboard =
     \<lparr>location = None, energyData = None, battery = initialBattery, recommendations = [],
      feasibility = None, energyConsumption = initialConsumption, costAnalysis = initialCost\<rparr>"

subsection \<open>The specification's tables and formulas\<close>

text \<open>
  The definitions of this subsection follow the specification's words, not the source;
  the theorems compare them with the functions above.

  The rule table of the recommendation generator: condition, category, priority, impact,
  confidence, in the order of declaration.
\<close>

type_synonym rule_row = "bool \<times> rec_type \<times> priority \<times> number \<times> number"

definition spec_rules :: "EnergyData \<Rightarrow> BatteryState \<Rightarrow> EnergyConsumption \<Rightarrow> rule_row list" where
  "spec_rules d b c =
     [(current (solar d) > 5 \<and> percentage b < 50, Solar, Critical, 85, 92),
      (current (wind d) > 5 \<and> percentage b < 70, Wind, High, 70, 88),
      (average (solar d) > 4 \<and> average (wind d) > 3, Economic, Medium, 60, 85),
      (dailyDemand c * 0.82 / 1000 > 0.5, Environmental, Medium, 90, 95),
      (percentage b < 20, Battery, Critical, 100, 100),
      (current (solar d) < 3 \<and> current (wind d) < 3, Grid, High, 45, 80)]"

text \<open>One entry per rule whose condition holds, in table order.\<close>

definition spec_generate ::
    "EnergyData \<Rightarrow> BatteryState \<Rightarrow> EnergyConsumption \<Rightarrow> (rec_type \<times> priority \<times> number \<times> number) list" where
  "spec_generate d b c = map snd (filter fst (spec_rules d b c))"

text \<open>The four table columns of a recommendation record.\<close>

definition summary :: "EnhancedRecommendation \<Rightarrow> rec_type \<times> priority \<times> number \<times> number" where
  "summary r = (type r, priority r, impact r, confidence r)"

text \<open>The cost and carbon projection, formula by formula.\<close>

definition spec_dailyRenewableGeneration :: "EnergyData \<Rightarrow> number" where
  "spec_dailyRenewableGeneration d = (average (solar d) + average (wind d)) * 0.8"

definition spec_dailyGridUsage :: "EnergyConsumption \<Rightarrow> EnergyData \<Rightarrow> number" where
  "spec_dailyGridUsage c d = max 0 (dailyDemand c - spec_dailyRenewableGeneration d)"

definition spec_dailySavings :: "EnergyConsumption \<Rightarrow> EnergyData \<Rightarrow> number \<Rightarrow> number" where
  "spec_dailySavings c d gridCostPerKWh = (dailyDemand c - spec_dailyGridUsage c d) * gridCostPerKWh"

definition spec_annualSavings :: "EnergyConsumption \<Rightarrow> EnergyData \<Rightarrow> number \<Rightarrow> number" where
  "spec_annualSavings c d gridCostPerKWh = spec_dailySavings c d gridCostPerKWh * 365"

definition spec_currentEmissions :: "EnergyConsumption \<Rightarrow> number" where
  "spec_currentEmissions c = dailyDemand c * 0.82"

definition spec_renewableReduction :: "EnergyData \<Rightarrow> number" where
  "spec_renewableReduction d = spec_dailyRenewableGeneration d * 0.82"

definition spec_annualCarbonSavings :: "EnergyData \<Rightarrow> number" where
  "spec_annualCarbonSavings d = spec_renewableReduction d * 365"

definition spec_treesEquivalent :: "EnergyData \<Rightarrow> number" where
  "spec_treesEquivalent d = spec_annualCarbonSavings d / 22"

section \<open>Properties\<close>

subsection \<open>The feasibility score\<close>

text \<open>The score is the sum of one entry per scoring block.\<close>

lemma tally_score:
  "fst (tally_of d b) =
     (if average (solar d) > 6 then 40 else if average (solar d) > 4 then 25 else 10)
   + (if average (wind d) > 5 then 30 else if average (wind d) > 3 then 20 else 5)
   + (if runtime b > 12 then 20 else if runtime b > 6 then 15 else 5)
   + (if peak (solar d) > 7 \<or> peak (wind d) > 6 then 10 else 0)"
  by (simp add: tally_of_def solarScoring_def windScoring_def batteryScoring_def
      reliabilityScoring_def)

lemma tally_bounds: "20 \<le> fst (tally_of d b) \<and> fst (tally_of d b) \<le> 100"
  by (simp add: tally_score)

lemma feasibility_Some:
  "energyData st = Some d \<Longrightarrow>
   feasibility (calculateFeasibility st) =
     Some \<lparr>status = fst (determineStatus (fst (tally_of d (battery st)))),
           score = fst (tally_of d (battery st)),
           reason = join '', '' (snd (tally_of d (battery st))),
           icon = snd (determineStatus (fst (tally_of d (battery st))))\<rparr>"
  by (simp add: calculateFeasibility_def split: prod.splits)

text \<open>
  C1. Whenever a snapshot is present, \<open>calculateFeasibility\<close> stores a result whose score
  lies between 20 and 100, and whose status is optimal exactly when the score is at least
  80, moderate exactly when it is at least 60 and below 80, and not-recommended exactly
  when it is below 60.
\<close>

theorem feasibility_score_range_and_status:
  assumes "energyData st = Some d"
  shows "\<exists>r. feasibility (calculateFeasibility st) = Some r
           \<and> 20 \<le> score r \<and> score r \<le> 100
           \<and> (status r = Optimal \<longleftrightarrow> score r \<ge> 80)
           \<and> (status r = Moderate \<longleftrightarrow> 60 \<le> score r \<and> score r < 80)
           \<and> (status r = NotRecommended \<longleftrightarrow> score r < 60)"
  using tally_bounds [of d "battery st"]
  by (simp add: feasibility_Some [OF assms] determineStatus_def)

text \<open>The fallback snapshot with the initial battery: a result is stored, in range.\<close>

theorem feasibility_score_range_and_status_witness:
  "energyData (initialDashboard\<lparr>energyData := Some fallbackEnergyData\<rparr>) = Some fallbackEnergyData
   \<and> (\<exists>r. feasibility (calculateFeasibility (initialDashboard\<lparr>energyData := Some fallbackEnergyData\<rparr>)) = Some r
           \<and> 20 \<le> score r \<and> score r \<le> 100
           \<and> (status r = Optimal \<longleftrightarrow> score r \<ge> 80)
           \<and> (status r = Moderate \<longleftrightarrow> 60 \<le> score r \<and> score r < 80)
           \<and> (status r = NotRecommended \<longleftrightarrow> score r < 60))"
  using feasibility_score_range_and_status
    [of "initialDashboard\<lparr>energyData := Some fallbackEnergyData\<rparr>" fallbackEnergyData]
  by simp

text \<open>
  C3. With a solar average above 6 the solar block adds exactly 40 to the running score,
  whatever the score and reasons were before; the block reads nothing of the wind or the
  battery. The total is 40 plus what the wind, battery and reliability blocks add, and
  that is the score \<open>calculateFeasibility\<close> stores.
\<close>

theorem solar_subscore_forty:
  assumes "average (solar d) > 6"
  shows "solarScoring d (s, rs) = (s + 40, rs @ [''excellent solar availability''])
       \<and> fst (tally_of d b) = 40 + fst (reliabilityScoring d (batteryScoring b (windScoring d (0, []))))
       \<and> (energyData st = Some d \<longrightarrow>
            (\<exists>r. feasibility (calculateFeasibility st) = Some r
               \<and> score r = 40 + fst (reliabilityScoring d
                                       (batteryScoring (battery st) (windScoring d (0, []))))))"
  using assms
  by (simp add: feasibility_Some tally_of_def solarScoring_def windScoring_def batteryScoring_def
      reliabilityScoring_def)

text \<open>
  The fallback snapshot with the solar average raised to 7: 40 for the sun, 35 for the
  rest.
\<close>

theorem solar_subscore_forty_witness:
  "average (solar (fallbackEnergyData\<lparr>solar := (solar fallbackEnergyData)\<lparr>average := 7\<rparr>\<rparr>)) > 6
   \<and> solarScoring (fallbackEnergyData\<lparr>solar := (solar fallbackEnergyData)\<lparr>average := 7\<rparr>\<rparr>) (0, [])
        = (40, [''excellent solar availability''])
   \<and> fst (tally_of (fallbackEnergyData\<lparr>solar := (solar fallbackEnergyData)\<lparr>average := 7\<rparr>\<rparr>)
              initialBattery) = 40 + 35
   \<and> (\<exists>r. feasibility (calculateFeasibility
              (initialDashboard\<lparr>energyData :=
                 Some (fallbackEnergyData\<lparr>solar := (solar fallbackEnergyData)\<lparr>average := 7\<rparr>\<rparr>)\<rparr>))
            = Some r \<and> score r = 40 + 35)"
  using solar_subscore_forty
      [of "fallbackEnergyData\<lparr>solar := (solar fallbackEnergyData)\<lparr>average := 7\<rparr>\<rparr>"
          0 "[]" initialBattery
          "initialDashboard\<lparr>energyData :=
             Some (fallbackEnergyData\<lparr>solar := (solar fallbackEnergyData)\<lparr>average := 7\<rparr>\<rparr>)\<rparr>"]
  by (simp add: fallbackEnergyData_def initialBattery_def initialDashboard_def
      windScoring_def batteryScoring_def reliabilityScoring_def)

text \<open>
  C9. Without a snapshot neither \<open>calculateFeasibility\<close> nor the effect that calls it
  changes the state: no result is stored, and the feasibility of before stays.
\<close>

theorem absent_snapshot_no_result:
  assumes "energyData st = None"
  shows "calculateFeasibility st = st
       \<and> scoringEffect h st = st
       \<and> feasibility (calculateFeasibility st) = feasibility st
       \<and> feasibility (scoringEffect h st) = feasibility st"
  using assms by (simp add: calculateFeasibility_def scoringEffect_def)

text \<open>
  The initial state has no snapshot and no feasibility; it has none afterwards.
\<close>

theorem absent_snapshot_no_result_witness:
  "energyData initialDashboard = None
   \<and> calculateFeasibility initialDashboard = initialDashboard
   \<and> scoringEffect 12 initialDashboard = initialDashboard
   \<and> feasibility (calculateFeasibility initialDashboard) = None
   \<and> feasibility (scoringEffect 12 initialDashboard) = None"
  using absent_snapshot_no_result [of initialDashboard 12]
  by (simp add: initialDashboard_def)

subsection \<open>Recommendations\<close>

lemma summary_simps:
  "summary (solarRec h) = (Solar, Critical, 85, 92)"
  "summary windRec = (Wind, High, 70, 88)"
  "summary (economicRec x) = (Economic, Medium, 60, 85)"
  "summary (environmentalRec y) = (Environmental, Medium, 90, 95)"
  "summary batteryRec = (Battery, Critical, 100, 100)"
  "summary gridRec = (Grid, High, 45, 80)"
  by (simp_all add: summary_def solarRec_def windRec_def economicRec_def environmentalRec_def
      batteryRec_def gridRec_def)

lemma recs_summary:
  "map summary (recs h d b c ca) = spec_generate d b c"
  by (simp add: recs_def spec_generate_def spec_rules_def Let_def summary_simps) argo

lemma generate_Some:
  "energyData st = Some d \<Longrightarrow>
   recommendations (generateRecommendations h st) =
     recs h d (battery st) (energyConsumption st) (costAnalysis st)"
  by (simp add: generateRecommendations_def)

text \<open>
  C2. With a snapshot present, the stored list, read by category, priority, impact and
  confidence, is the rule table filtered by its conditions: one record per rule that fires,
  none for the others, in the table's order. Its length is the number of rules that fire,
  and it is empty when none does.
\<close>

theorem recommendations_follow_rule_table:
  assumes "energyData st = Some d"
  shows "map summary (recommendations (generateRecommendations h st))
           = spec_generate d (battery st) (energyConsumption st)
       \<and> length (recommendations (generateRecommendations h st))
           = length (filter fst (spec_rules d (battery st) (energyConsumption st)))
       \<and> ((\<forall>row \<in> set (spec_rules d (battery st) (energyConsumption st)). \<not> fst row)
           \<longrightarrow> recommendations (generateRecommendations h st) = [])"
proof -
  let ?out = "recommendations (generateRecommendations h st)"
  let ?rules = "spec_rules d (battery st) (energyConsumption st)"
  have 1: "map summary ?out = spec_generate d (battery st) (energyConsumption st)"
    by (simp add: generate_Some [OF assms] recs_summary)
  then have "length (map summary ?out) = length (map snd (filter fst ?rules))"
    by (simp add: spec_generate_def)
  then have 2: "length ?out = length (filter fst ?rules)"
    by simp
  have 3: "?out = []" if "\<forall>row \<in> set ?rules. \<not> fst row"
  proof -
    from that have "filter fst ?rules = []"
      by (simp add: filter_empty_conv)
    with 2 show ?thesis by simp
  qed
  from 1 2 3 show ?thesis by blast
qed

text \<open>
  On the fallback snapshot with the initial battery only the economic rule fires; with the
  solar average lowered to 3 none does and the list is empty.
\<close>

theorem recommendations_follow_rule_table_witness:
  "energyData (initialDashboard\<lparr>energyData := Some fallbackEnergyData\<rparr>) = Some fallbackEnergyData
   \<and> map summary (recommendations
         (generateRecommendations 12 (initialDashboard\<lparr>energyData := Some fallbackEnergyData\<rparr>)))
       = [(Economic, Medium, 60, 85)]
   \<and> length (recommendations
         (generateRecommendations 12 (initialDashboard\<lparr>energyData := Some fallbackEnergyData\<rparr>))) = 1
   \<and> filter fst (spec_rules
          (fallbackEnergyData\<lparr>solar := (solar fallbackEnergyData)\<lparr>average := 3\<rparr>\<rparr>)
          initialBattery initialConsumption) = []
   \<and> recommendations (generateRecommendations 12
         (initialDashboard\<lparr>energyData :=
            Some (fallbackEnergyData\<lparr>solar := (solar fallbackEnergyData)\<lparr>average := 3\<rparr>\<rparr>)\<rparr>)) = []"
  using recommendations_follow_rule_table
      [of "initialDashboard\<lparr>energyData := Some fallbackEnergyData\<rparr>" fallbackEnergyData 12]
    recommendations_follow_rule_table
      [of "initialDashboard\<lparr>energyData :=
            Some (fallbackEnergyData\<lparr>solar := (solar fallbackEnergyData)\<lparr>average := 3\<rparr>\<rparr>)\<rparr>"
          "fallbackEnergyData\<lparr>solar := (solar fallbackEnergyData)\<lparr>average := 3\<rparr>\<rparr>" 12]
  by (simp add: spec_generate_def spec_rules_def initialDashboard_def fallbackEnergyData_def
      initialBattery_def initialConsumption_def)

lemma solarRec_same_daytime:
  "isDaytime h1 = isDaytime h2 \<Longrightarrow> solarRec h1 = solarRec h2"
  by (simp add: solarRec_def)

lemma recs_same_daytime:
  assumes "isDaytime h1 = isDaytime h2"
  shows "recs h1 d b c ca = recs h2 d b c ca"
  by (simp only: recs_def solarRec_same_daytime [OF assms])

lemma recs_map_cong:
  assumes "f (solarRec h1) = f (solarRec h2)"
  shows "map f (recs h1 d b c ca) = map f (recs h2 d b c ca)"
  using assms by (simp add: recs_def Let_def)

lemma recs_gridCost:
  assumes "gridCost ca = gridCost ca'"
  shows "recs h d b c ca = recs h d b c ca'"
  by (simp only: recs_def assms)

lemma type_simps:
  "type (solarRec h) = Solar" "type windRec = Wind" "type (economicRec x) = Economic"
  "type (environmentalRec y) = Environmental" "type batteryRec = Battery" "type gridRec = Grid"
  by (simp_all add: solarRec_def windRec_def economicRec_def environmentalRec_def
      batteryRec_def gridRec_def)

lemma timeframe_simps:
  "timeframe (solarRec h) = (if isDaytime h then ''Next 2-4 hours'' else ''Tomorrow 10AM-2PM'')"
  "timeframe windRec = ''Next 6 hours''"
  "timeframe (economicRec x) = ''Daily optimization''"
  "timeframe (environmentalRec y) = ''Continuous''"
  "timeframe batteryRec = ''Immediate''"
  "timeframe gridRec = ''Next 12 hours''"
  by (simp_all add: solarRec_def windRec_def economicRec_def environmentalRec_def
      batteryRec_def gridRec_def)

lemma recs_solar_timeframe:
  "\<forall>r \<in> set (recs h d b c ca). type r = Solar \<longrightarrow>
     timeframe r = (if isDaytime h then ''Next 2-4 hours'' else ''Tomorrow 10AM-2PM'')"
  by (simp add: recs_def Let_def type_simps timeframe_simps)

lemma recs_other_rules:
  "filter (\<lambda>r. type r \<noteq> Solar) (recs h1 d b c ca) = filter (\<lambda>r. type r \<noteq> Solar) (recs h2 d b c ca)"
  by (simp add: recs_def Let_def type_simps)


lemma recs_sunny:
  "recs h (fallbackEnergyData\<lparr>solar := (solar fallbackEnergyData)\<lparr>current := 6\<rparr>\<rparr>)
       (initialBattery\<lparr>percentage := 40\<rparr>) initialConsumption initialCost
     = [solarRec h, economicRec ((5.1 + 4.2) * 8.5 * 0.8)]"
  by (simp add: recs_def Let_def fallbackEnergyData_def initialBattery_def initialConsumption_def
      initialCost_def)

text \<open>
  C7, as amended. With a snapshot present the stored list is a function of the snapshot,
  the battery, the consumption profile, the grid cost and the hour of the wall clock, and
  of the hour only through \<open>isDaytime\<close>: two calls on states that agree on the four
  inputs, at hours on the same side of \<open>isDaytime\<close>, store the same list, whatever else
  the states hold. At any two hours the two lists agree in length, order and every field
  but \<open>timeframe\<close>, and the records of the rules other than the solar one are the same;
  the solar record reads \<open>''Next 2-4 hours''\<close> by day and \<open>''Tomorrow 10AM-2PM''\<close>
  otherwise. On one state, two calls at hours on the same side give the same state, a
  second call at the same hour changes nothing, and nothing but the list is written.
\<close>

theorem generate_pure_up_to_daytime:
  "(energyData st1 = Some d \<and> energyData st2 = Some d \<and> battery st1 = battery st2
      \<and> energyConsumption st1 = energyConsumption st2
      \<and> gridCost (costAnalysis st1) = gridCost (costAnalysis st2) \<longrightarrow>
      (isDaytime h1 = isDaytime h2 \<longrightarrow>
         recommendations (generateRecommendations h1 st1)
           = recommendations (generateRecommendations h2 st2))
      \<and> map (timeframe_update (\<lambda>_. [])) (recommendations (generateRecommendations h1 st1))
          = map (timeframe_update (\<lambda>_. [])) (recommendations (generateRecommendations h2 st2))
      \<and> filter (\<lambda>r. type r \<noteq> Solar) (recommendations (generateRecommendations h1 st1))
          = filter (\<lambda>r. type r \<noteq> Solar) (recommendations (generateRecommendations h2 st2))
      \<and> (\<forall>r \<in> set (recommendations (generateRecommendations h1 st1)). type r = Solar \<longrightarrow>
            timeframe r = (if isDaytime h1 then ''Next 2-4 hours'' else ''Tomorrow 10AM-2PM'')))
   \<and> (isDaytime h1 = isDaytime h2 \<longrightarrow> generateRecommendations h1 st = generateRecommendations h2 st)
   \<and> map (timeframe_update (\<lambda>_. [])) (recommendations (generateRecommendations h1 st))
       = map (timeframe_update (\<lambda>_. [])) (recommendations (generateRecommendations h2 st))
   \<and> generateRecommendations h1 (generateRecommendations h1 st) = generateRecommendations h1 st
   \<and> generateRecommendations h1 st = st\<lparr>recommendations := recommendations (generateRecommendations h1 st)\<rparr>"
proof -
  have erase: "timeframe_update (\<lambda>_. []) (solarRec h1) = timeframe_update (\<lambda>_. []) (solarRec h2)"
    by (simp add: solarRec_def)
  have two: "(isDaytime h1 = isDaytime h2 \<longrightarrow>
         recommendations (generateRecommendations h1 st1)
           = recommendations (generateRecommendations h2 st2))
      \<and> map (timeframe_update (\<lambda>_. [])) (recommendations (generateRecommendations h1 st1))
          = map (timeframe_update (\<lambda>_. [])) (recommendations (generateRecommendations h2 st2))
      \<and> filter (\<lambda>r. type r \<noteq> Solar) (recommendations (generateRecommendations h1 st1))
          = filter (\<lambda>r. type r \<noteq> Solar) (recommendations (generateRecommendations h2 st2))
      \<and> (\<forall>r \<in> set (recommendations (generateRecommendations h1 st1)). type r = Solar \<longrightarrow>
            timeframe r = (if isDaytime h1 then ''Next 2-4 hours'' else ''Tomorrow 10AM-2PM''))"
    if in1: "energyData st1 = Some d" and in2: "energyData st2 = Some d"
      and b: "battery st1 = battery st2" and c: "energyConsumption st1 = energyConsumption st2"
      and g: "gridCost (costAnalysis st1) = gridCost (costAnalysis st2)"
  proof -
    let ?b = "battery st2" and ?c = "energyConsumption st2"
    have r1: "recommendations (generateRecommendations h1 st1) = recs h1 d ?b ?c (costAnalysis st2)"
      using in1 b c recs_gridCost [OF g] by (simp add: generateRecommendations_def)
    have r2: "recommendations (generateRecommendations h2 st2) = recs h2 d ?b ?c (costAnalysis st2)"
      using in2 by (simp add: generateRecommendations_def)
    have "recs h1 d ?b ?c (costAnalysis st2) = recs h2 d ?b ?c (costAnalysis st2)"
      if "isDaytime h1 = isDaytime h2"
      using that by (rule recs_same_daytime)
    moreover have "map (timeframe_update (\<lambda>_. [])) (recs h1 d ?b ?c (costAnalysis st2))
        = map (timeframe_update (\<lambda>_. [])) (recs h2 d ?b ?c (costAnalysis st2))"
      using erase by (rule recs_map_cong)
    moreover note recs_other_rules [of h1 d ?b ?c "costAnalysis st2" h2]
      recs_solar_timeframe [of h1 d ?b ?c "costAnalysis st2"]
    ultimately show ?thesis
      unfolding r1 r2 by blast
  qed
  have one: "(isDaytime h1 = isDaytime h2 \<longrightarrow> generateRecommendations h1 st = generateRecommendations h2 st)
   \<and> map (timeframe_update (\<lambda>_. [])) (recommendations (generateRecommendations h1 st))
       = map (timeframe_update (\<lambda>_. [])) (recommendations (generateRecommendations h2 st))
   \<and> generateRecommendations h1 (generateRecommendations h1 st) = generateRecommendations h1 st
   \<and> generateRecommendations h1 st = st\<lparr>recommendations := recommendations (generateRecommendations h1 st)\<rparr>"
  proof (cases "energyData st")
    case None
    then show ?thesis by (simp add: generateRecommendations_def)
  next
    case (Some d')
    have a: "recs h1 d' b c ca = recs h2 d' b c ca" if "isDaytime h1 = isDaytime h2" for b c ca
      using that by (rule recs_same_daytime)
    have b: "map (timeframe_update (\<lambda>_. [])) (recs h1 d' b c ca)
        = map (timeframe_update (\<lambda>_. [])) (recs h2 d' b c ca)" for b c ca
      using erase by (rule recs_map_cong)
    from Some a b show ?thesis
      by (simp add: generateRecommendations_def)
  qed
  from two one show ?thesis by blast
qed

text \<open>
  Two states that differ in location, previous recommendations and stored savings but
  agree on the four inputs, with a solar current of 6 and the battery at 40 percent: the
  same list at nine and at fifteen o'clock, and the solar record's two time frames at nine
  and at twenty.
\<close>

theorem generate_pure_up_to_daytime_witness:
  "energyData (initialDashboard\<lparr>energyData := Some (fallbackEnergyData\<lparr>solar := (solar fallbackEnergyData)\<lparr>current := 6\<rparr>\<rparr>),
                          battery := initialBattery\<lparr>percentage := 40\<rparr>\<rparr>) = Some (fallbackEnergyData\<lparr>solar := (solar fallbackEnergyData)\<lparr>current := 6\<rparr>\<rparr>)
   \<and> energyData (initialDashboard\<lparr>location := Some \<lparr>latitude = 0, longitude = 0, city = ''Unknown'', region = ''Unknown'', country = ''Unknown''\<rparr>,
                          energyData := Some (fallbackEnergyData\<lparr>solar := (solar fallbackEnergyData)\<lparr>current := 6\<rparr>\<rparr>),
                          battery := initialBattery\<lparr>percentage := 40\<rparr>,
                          recommendations := [gridRec],
                          costAnalysis := initialCost\<lparr>annualSavings := 1\<rparr>\<rparr>) = Some (fallbackEnergyData\<lparr>solar := (solar fallbackEnergyData)\<lparr>current := 6\<rparr>\<rparr>)
   \<and> battery (initialDashboard\<lparr>energyData := Some (fallbackEnergyData\<lparr>solar := (solar fallbackEnergyData)\<lparr>current := 6\<rparr>\<rparr>),
                          battery := initialBattery\<lparr>percentage := 40\<rparr>\<rparr>) = battery (initialDashboard\<lparr>location := Some \<lparr>latitude = 0, longitude = 0, city = ''Unknown'', region = ''Unknown'', country = ''Unknown''\<rparr>,
                          energyData := Some (fallbackEnergyData\<lparr>solar := (solar fallbackEnergyData)\<lparr>current := 6\<rparr>\<rparr>),
                          battery := initialBattery\<lparr>percentage := 40\<rparr>,
                          recommendations := [gridRec],
                          costAnalysis := initialCost\<lparr>annualSavings := 1\<rparr>\<rparr>)
   \<and> energyConsumption (initialDashboard\<lparr>energyData := Some (fallbackEnergyData\<lparr>solar := (solar fallbackEnergyData)\<lparr>current := 6\<rparr>\<rparr>),
                          battery := initialBattery\<lparr>percentage := 40\<rparr>\<rparr>) = energyConsumption (initialDashboard\<lparr>location := Some \<lparr>latitude = 0, longitude = 0, city = ''Unknown'', region = ''Unknown'', country = ''Unknown''\<rparr>,
                          energyData := Some (fallbackEnergyData\<lparr>solar := (solar fallbackEnergyData)\<lparr>current := 6\<rparr>\<rparr>),
                          battery := initialBattery\<lparr>percentage := 40\<rparr>,
                          recommendations := [gridRec],
                          costAnalysis := initialCost\<lparr>annualSavings := 1\<rparr>\<rparr>)
   \<and> gridCost (costAnalysis (initialDashboard\<lparr>energyData := Some (fallbackEnergyData\<lparr>solar := (solar fallbackEnergyData)\<lparr>current := 6\<rparr>\<rparr>),
                          battery := initialBattery\<lparr>percentage := 40\<rparr>\<rparr>)) = gridCost (costAnalysis (initialDashboard\<lparr>location := Some \<lparr>latitude = 0, longitude = 0, city = ''Unknown'', region = ''Unknown'', country = ''Unknown''\<rparr>,
                          energyData := Some (fallbackEnergyData\<lparr>solar := (solar fallbackEnergyData)\<lparr>current := 6\<rparr>\<rparr>),
                          battery := initialBattery\<lparr>percentage := 40\<rparr>,
                          recommendations := [gridRec],
                          costAnalysis := initialCost\<lparr>annualSavings := 1\<rparr>\<rparr>))
   \<and> (initialDashboard\<lparr>energyData := Some (fallbackEnergyData\<lparr>solar := (solar fallbackEnergyData)\<lparr>current := 6\<rparr>\<rparr>),
                          battery := initialBattery\<lparr>percentage := 40\<rparr>\<rparr>) \<noteq> (initialDashboard\<lparr>location := Some \<lparr>latitude = 0, longitude = 0, city = ''Unknown'', region = ''Unknown'', country = ''Unknown''\<rparr>,
                          energyData := Some (fallbackEnergyData\<lparr>solar := (solar fallbackEnergyData)\<lparr>current := 6\<rparr>\<rparr>),
                          battery := initialBattery\<lparr>percentage := 40\<rparr>,
                          recommendations := [gridRec],
                          costAnalysis := initialCost\<lparr>annualSavings := 1\<rparr>\<rparr>)
   \<and> isDaytime 9 = isDaytime 15
   \<and> recommendations (generateRecommendations 9 (initialDashboard\<lparr>energyData := Some (fallbackEnergyData\<lparr>solar := (solar fallbackEnergyData)\<lparr>current := 6\<rparr>\<rparr>),
                          battery := initialBattery\<lparr>percentage := 40\<rparr>\<rparr>))
       = recommendations (generateRecommendations 15 (initialDashboard\<lparr>location := Some \<lparr>latitude = 0, longitude = 0, city = ''Unknown'', region = ''Unknown'', country = ''Unknown''\<rparr>,
                          energyData := Some (fallbackEnergyData\<lparr>solar := (solar fallbackEnergyData)\<lparr>current := 6\<rparr>\<rparr>),
                          battery := initialBattery\<lparr>percentage := 40\<rparr>,
                          recommendations := [gridRec],
                          costAnalysis := initialCost\<lparr>annualSavings := 1\<rparr>\<rparr>))
   \<and> type (hd (recommendations (generateRecommendations 9 (initialDashboard\<lparr>energyData := Some (fallbackEnergyData\<lparr>solar := (solar fallbackEnergyData)\<lparr>current := 6\<rparr>\<rparr>),
                          battery := initialBattery\<lparr>percentage := 40\<rparr>\<rparr>)))) = Solar
   \<and> timeframe (hd (recommendations (generateRecommendations 9 (initialDashboard\<lparr>energyData := Some (fallbackEnergyData\<lparr>solar := (solar fallbackEnergyData)\<lparr>current := 6\<rparr>\<rparr>),
                          battery := initialBattery\<lparr>percentage := 40\<rparr>\<rparr>)))) = ''Next 2-4 hours''
   \<and> type (hd (recommendations (generateRecommendations 20 (initialDashboard\<lparr>energyData := Some (fallbackEnergyData\<lparr>solar := (solar fallbackEnergyData)\<lparr>current := 6\<rparr>\<rparr>),
                          battery := initialBattery\<lparr>percentage := 40\<rparr>\<rparr>)))) = Solar
   \<and> timeframe (hd (recommendations (generateRecommendations 20 (initialDashboard\<lparr>energyData := Some (fallbackEnergyData\<lparr>solar := (solar fallbackEnergyData)\<lparr>current := 6\<rparr>\<rparr>),
                          battery := initialBattery\<lparr>percentage := 40\<rparr>\<rparr>)))) = ''Tomorrow 10AM-2PM''
   \<and> generateRecommendations 9 (initialDashboard\<lparr>energyData := Some (fallbackEnergyData\<lparr>solar := (solar fallbackEnergyData)\<lparr>current := 6\<rparr>\<rparr>),
                          battery := initialBattery\<lparr>percentage := 40\<rparr>\<rparr>) = generateRecommendations 15 (initialDashboard\<lparr>energyData := Some (fallbackEnergyData\<lparr>solar := (solar fallbackEnergyData)\<lparr>current := 6\<rparr>\<rparr>),
                          battery := initialBattery\<lparr>percentage := 40\<rparr>\<rparr>)"
proof -
  let ?d = "fallbackEnergyData\<lparr>solar := (solar fallbackEnergyData)\<lparr>current := 6\<rparr>\<rparr>"
  let ?s1 = "initialDashboard\<lparr>energyData := Some ?d,
                          battery := initialBattery\<lparr>percentage := 40\<rparr>\<rparr>"
  let ?s2 = "initialDashboard\<lparr>location := Some \<lparr>latitude = 0, longitude = 0, city = ''Unknown'', region = ''Unknown'', country = ''Unknown''\<rparr>,
                          energyData := Some ?d,
                          battery := initialBattery\<lparr>percentage := 40\<rparr>,
                          recommendations := [gridRec],
                          costAnalysis := initialCost\<lparr>annualSavings := 1\<rparr>\<rparr>"
  have r: "recommendations (generateRecommendations h ?s1)
      = [solarRec h, economicRec ((5.1 + 4.2) * 8.5 * 0.8)]" for h
    by (simp add: generateRecommendations_def initialDashboard_def recs_sunny)
  have i: "isDaytime 9 = isDaytime 15" "isDaytime 9" "\<not> isDaytime 20"
    by (simp_all add: isDaytime_def)
  have p: "energyData ?s1 = Some ?d"
    "energyData ?s2 = Some ?d"
    "battery ?s1 = battery ?s2"
    "energyConsumption ?s1 = energyConsumption ?s2"
    "gridCost (costAnalysis ?s1) = gridCost (costAnalysis ?s2)"
    "?s1 \<noteq> ?s2"
    by (simp_all add: initialDashboard_def initialCost_def)
  have m9: "hd (recommendations (generateRecommendations 9 ?s1))
      \<in> set (recommendations (generateRecommendations 9 ?s1))"
    and m20: "hd (recommendations (generateRecommendations 20 ?s1))
      \<in> set (recommendations (generateRecommendations 20 ?s1))"
    and t9: "type (hd (recommendations (generateRecommendations 9 ?s1))) = Solar"
    and t20: "type (hd (recommendations (generateRecommendations 20 ?s1))) = Solar"
    by (simp_all add: r type_simps)
  from generate_pure_up_to_daytime [of ?s1 ?d ?s2 9 15 ?s1] p i(1)
  have "recommendations (generateRecommendations 9 ?s1)
       = recommendations (generateRecommendations 15 ?s2)"
    and "generateRecommendations 9 ?s1 = generateRecommendations 15 ?s1"
    and "timeframe (hd (recommendations (generateRecommendations 9 ?s1))) = ''Next 2-4 hours''"
    using m9 t9 i(2) by auto
  moreover from generate_pure_up_to_daytime [of ?s1 ?d ?s1 20 20 ?s1] p
  have "timeframe (hd (recommendations (generateRecommendations 20 ?s1))) = ''Tomorrow 10AM-2PM''"
    using m20 t20 i(3) by auto
  ultimately show ?thesis using p i(1) t9 t20 by blast
qed

text \<open>
  C7, as stated, fails: with a solar current of 6 and the battery at 40 percent the solar
  rule fires, and its record reads \<open>''Next 2-4 hours''\<close> at noon and
  \<open>''Tomorrow 10AM-2PM''\<close> at eight in the evening.
\<close>

theorem generate_depends_on_clock:
  "generateRecommendations 12
      (initialDashboard\<lparr>energyData := Some (fallbackEnergyData\<lparr>solar := (solar fallbackEnergyData)\<lparr>current := 6\<rparr>\<rparr>),
                        battery := initialBattery\<lparr>percentage := 40\<rparr>\<rparr>)
   \<noteq> generateRecommendations 20
      (initialDashboard\<lparr>energyData := Some (fallbackEnergyData\<lparr>solar := (solar fallbackEnergyData)\<lparr>current := 6\<rparr>\<rparr>),
                        battery := initialBattery\<lparr>percentage := 40\<rparr>\<rparr>)"
proof -
  let ?st = "initialDashboard\<lparr>energyData := Some (fallbackEnergyData\<lparr>solar := (solar fallbackEnergyData)\<lparr>current := 6\<rparr>\<rparr>),
                        battery := initialBattery\<lparr>percentage := 40\<rparr>\<rparr>"
  have r: "recommendations (generateRecommendations h ?st)
      = [solarRec h, economicRec ((5.1 + 4.2) * 8.5 * 0.8)]" for h
    by (simp add: generateRecommendations_def initialDashboard_def recs_sunny)
  have "timeframe (hd (recommendations (generateRecommendations 12 ?st))) = ''Next 2-4 hours''"
    by (simp only: r) (simp add: solarRec_def isDaytime_def)
  moreover have "timeframe (hd (recommendations (generateRecommendations 20 ?st))) = ''Tomorrow 10AM-2PM''"
    by (simp only: r) (simp add: solarRec_def isDaytime_def)
  ultimately show ?thesis by auto
qed

subsection \<open>Battery\<close>

lemma batteryEffect_explicit:
  assumes "capacity (battery st) \<noteq> 0"
  shows "batteryEffect st =
     Some (st\<lparr>battery := (battery st)
            \<lparr>percentage := currentCharge (battery st) / capacity (battery st) * 100,
             runtime := currentCharge (battery st) / js_or (averageDemand (energyData st)) 5\<rparr>\<rparr>)"
proof -
  have "js_or (averageDemand (energyData st)) 5 \<noteq> 0"
    by (simp add: js_or_def)
  with assms show ?thesis
    by (simp add: batteryEffect_def newPercentage_def newRuntime_def js_div_def)
qed

text \<open>
  C8. For a battery of nonzero capacity the effect stores
  \<open>currentCharge / capacity * 100\<close> as percentage and \<open>currentCharge\<close> divided by the
  guarded average demand as runtime, and keeps capacity and charge. Without a snapshot the
  guarded demand is 5. A battery of capacity 100 and charge 0 without a snapshot gets
  percentage 0 and runtime 0 / 5 = 0.
\<close>

theorem battery_recompute:
  assumes "capacity (battery st) \<noteq> 0"
  shows "(\<exists>b'. batteryEffect st = Some (st\<lparr>battery := b'\<rparr>)
           \<and> percentage b' = currentCharge (battery st) / capacity (battery st) * 100
           \<and> runtime b' = currentCharge (battery st) / js_or (averageDemand (energyData st)) 5
           \<and> capacity b' = capacity (battery st)
           \<and> currentCharge b' = currentCharge (battery st))
       \<and> (energyData st = None \<longrightarrow> js_or (averageDemand (energyData st)) 5 = 5)
       \<and> (capacity (battery st) = 100 \<and> currentCharge (battery st) = 0 \<and> energyData st = None \<longrightarrow>
            batteryEffect st = Some (st\<lparr>battery := (battery st)\<lparr>percentage := 0, runtime := 0 / 5\<rparr>\<rparr>))"
proof (intro conjI impI)
  let ?b = "(battery st)
            \<lparr>percentage := currentCharge (battery st) / capacity (battery st) * 100,
             runtime := currentCharge (battery st) / js_or (averageDemand (energyData st)) 5\<rparr>"
  have "batteryEffect st = Some (st\<lparr>battery := ?b\<rparr>)"
    using assms by (rule batteryEffect_explicit)
  moreover have "percentage ?b = currentCharge (battery st) / capacity (battery st) * 100"
    and "runtime ?b = currentCharge (battery st) / js_or (averageDemand (energyData st)) 5"
    and "capacity ?b = capacity (battery st)" and "currentCharge ?b = currentCharge (battery st)"
    by simp_all
  ultimately show "\<exists>b'. batteryEffect st = Some (st\<lparr>battery := b'\<rparr>)
           \<and> percentage b' = currentCharge (battery st) / capacity (battery st) * 100
           \<and> runtime b' = currentCharge (battery st) / js_or (averageDemand (energyData st)) 5
           \<and> capacity b' = capacity (battery st)
           \<and> currentCharge b' = currentCharge (battery st)"
    by blast
next
  assume "energyData st = None"
  then show "js_or (averageDemand (energyData st)) 5 = 5"
    by (simp add: js_or_def averageDemand_def)
next
  assume "capacity (battery st) = 100 \<and> currentCharge (battery st) = 0 \<and> energyData st = None"
  then show "batteryEffect st = Some (st\<lparr>battery := (battery st)\<lparr>percentage := 0, runtime := 0 / 5\<rparr>\<rparr>)"
    by (simp add: batteryEffect_explicit)
qed

text \<open>
  The initial dashboard, which has no snapshot, with its battery emptied.
\<close>

theorem battery_recompute_witness:
  "capacity (battery (initialDashboard\<lparr>battery := initialBattery\<lparr>currentCharge := 0\<rparr>\<rparr>)) \<noteq> 0
   \<and> capacity (battery (initialDashboard\<lparr>battery := initialBattery\<lparr>currentCharge := 0\<rparr>\<rparr>)) = 100
   \<and> currentCharge (battery (initialDashboard\<lparr>battery := initialBattery\<lparr>currentCharge := 0\<rparr>\<rparr>)) = 0
   \<and> energyData (initialDashboard\<lparr>battery := initialBattery\<lparr>currentCharge := 0\<rparr>\<rparr>) = None
   \<and> batteryEffect (initialDashboard\<lparr>battery := initialBattery\<lparr>currentCharge := 0\<rparr>\<rparr>)
       = Some (initialDashboard\<lparr>battery :=
                 \<lparr>capacity = 100, currentCharge = 0, percentage = 0, runtime = 0\<rparr>\<rparr>)"
  using battery_recompute [of "initialDashboard\<lparr>battery := initialBattery\<lparr>currentCharge := 0\<rparr>\<rparr>"]
  by (simp add: initialDashboard_def initialBattery_def)






subsection \<open>Cost and carbon projection\<close>

text \<open>
  With a snapshot the function returns, and every field it writes is the specification's
  formula.
\<close>

lemma metrics_explicit:
  "calculateEnhancedMetrics (Some d) c ca =
     Inr (ca\<lparr>renewableSavings := spec_dailySavings c d (gridCost ca),
             annualSavings := spec_annualSavings c d (gridCost ca),
             paybackPeriod := (if spec_annualSavings c d (gridCost ca) > 0
                               then systemCost / spec_annualSavings c d (gridCost ca) else 0)\<rparr>,
          \<lparr>currentEmissions = spec_currentEmissions c,
           renewableReduction = spec_renewableReduction d,
           annualCarbonSavings = spec_annualCarbonSavings d,
           treesEquivalent = spec_treesEquivalent d\<rparr>)"
  unfolding calculateEnhancedMetrics_def Let_def spec_dailySavings_def spec_annualSavings_def
    spec_dailyGridUsage_def spec_dailyRenewableGeneration_def spec_currentEmissions_def
    spec_renewableReduction_def spec_annualCarbonSavings_def spec_treesEquivalent_def
  by (simp only: option.case)

text \<open>
  C4. With a snapshot present the function returns without an error; the payback period
  it stores is \<open>systemCost / annualSavings\<close>, with a system cost of 80000, when the
  stored annual savings are positive, and 0 when they are zero or negative. The effect
  that calls the function never ends in an error.
\<close>

theorem payback_period_guard:
  "\<exists>ca' cf. calculateEnhancedMetrics (Some d) c ca = Inr (ca', cf)
     \<and> (annualSavings ca' > 0 \<longrightarrow> paybackPeriod ca' = systemCost / annualSavings ca')
     \<and> (annualSavings ca' \<le> 0 \<longrightarrow> paybackPeriod ca' = 0)
     \<and> systemCost = 80000
     \<and> (\<exists>r. metricsEffect e b c ca cf0 = Inr r)"
  by (cases e) (simp_all add: metrics_explicit systemCost_def metricsEffect_def)

text \<open>
  The fallback snapshot at the initial grid cost has positive savings; at a grid cost of 0
  the savings are 0 and so is the payback period.
\<close>

theorem payback_period_guard_witness:
  "(\<exists>ca' cf. calculateEnhancedMetrics (Some fallbackEnergyData) initialConsumption initialCost = Inr (ca', cf)
      \<and> annualSavings ca' > 0 \<and> paybackPeriod ca' = 80000 / annualSavings ca')
   \<and> (\<exists>ca' cf. calculateEnhancedMetrics (Some fallbackEnergyData) initialConsumption
                     (initialCost\<lparr>gridCost := 0\<rparr>) = Inr (ca', cf)
      \<and> annualSavings ca' \<le> 0 \<and> paybackPeriod ca' = 0)"
  using payback_period_guard [of fallbackEnergyData initialConsumption initialCost]
    payback_period_guard [of fallbackEnergyData initialConsumption "initialCost\<lparr>gridCost := 0\<rparr>"]
  by (simp add: calculateEnhancedMetrics_def Let_def systemCost_def fallbackEnergyData_def
      initialConsumption_def initialCost_def)

text \<open>
  C5. The stored daily savings are \<open>(dailyDemand - dailyGridUsage) * gridCost\<close>, where
  the grid usage is \<open>max 0 (dailyDemand - dailyRenewableGeneration)\<close> and the generation
  is \<open>(solar.average + wind.average) * 0.8\<close>; the stored annual savings are 365 times
  the daily ones; the grid cost is kept. For a demand of 25, averages 5 and 4 and a grid
  cost of 8.5 the generation is 7.2, the grid usage 17.8 and the daily savings 61.2.
\<close>

theorem cost_projection:
  "\<exists>ca' cf. calculateEnhancedMetrics (Some d) c ca = Inr (ca', cf)
     \<and> renewableSavings ca' = spec_dailySavings c d (gridCost ca)
     \<and> annualSavings ca' = spec_annualSavings c d (gridCost ca)
     \<and> gridCost ca' = gridCost ca
     \<and> (dailyDemand c = 25 \<and> average (solar d) = 5 \<and> average (wind d) = 4 \<and> gridCost ca = 8.5
          \<longrightarrow> spec_dailyRenewableGeneration d = 7.2 \<and> spec_dailyGridUsage c d = 17.8
              \<and> renewableSavings ca' = 61.2)"
  by (simp add: calculateEnhancedMetrics_def Let_def spec_dailySavings_def spec_annualSavings_def
      spec_dailyGridUsage_def spec_dailyRenewableGeneration_def)

text \<open>
  The numbers of the example, on the fallback snapshot with its averages set to 5 and 4.
\<close>

theorem cost_projection_witness:
  "dailyDemand initialConsumption = 25
   \<and> average (solar (fallbackEnergyData\<lparr>solar := (solar fallbackEnergyData)\<lparr>average := 5\<rparr>,
                                          wind := (wind fallbackEnergyData)\<lparr>average := 4\<rparr>\<rparr>)) = 5
   \<and> average (wind (fallbackEnergyData\<lparr>solar := (solar fallbackEnergyData)\<lparr>average := 5\<rparr>,
                                         wind := (wind fallbackEnergyData)\<lparr>average := 4\<rparr>\<rparr>)) = 4
   \<and> gridCost initialCost = 8.5
   \<and> (\<exists>ca' cf. calculateEnhancedMetrics
         (Some (fallbackEnergyData\<lparr>solar := (solar fallbackEnergyData)\<lparr>average := 5\<rparr>,
                                   wind := (wind fallbackEnergyData)\<lparr>average := 4\<rparr>\<rparr>))
         initialConsumption initialCost = Inr (ca', cf)
        \<and> renewableSavings ca' = 61.2 \<and> annualSavings ca' = 22338 \<and> gridCost ca' = 8.5)"
  using cost_projection
      [of "fallbackEnergyData\<lparr>solar := (solar fallbackEnergyData)\<lparr>average := 5\<rparr>,
                              wind := (wind fallbackEnergyData)\<lparr>average := 4\<rparr>\<rparr>"
          initialConsumption initialCost]
  by (simp add: calculateEnhancedMetrics_def Let_def fallbackEnergyData_def
      initialConsumption_def initialCost_def)

text \<open>
  C6. The stored carbon footprint: emissions \<open>dailyDemand * 0.82\<close>, reduction
  \<open>dailyRenewableGeneration * 0.82\<close>, annual savings 365 times the reduction, and
  trees one 22nd of the annual savings.
\<close>

theorem carbon_projection:
  "\<exists>ca' cf. calculateEnhancedMetrics (Some d) c ca = Inr (ca', cf)
     \<and> currentEmissions cf = spec_currentEmissions c
     \<and> renewableReduction cf = spec_renewableReduction d
     \<and> annualCarbonSavings cf = spec_annualCarbonSavings d
     \<and> treesEquivalent cf = spec_treesEquivalent d"
  by (simp add: calculateEnhancedMetrics_def Let_def spec_currentEmissions_def
      spec_renewableReduction_def spec_annualCarbonSavings_def spec_treesEquivalent_def
      spec_dailyRenewableGeneration_def)

end
